theory Spec2Isabelle
  imports Main
begin

section \<open>The Moench detector control server\<close>

text \<open>
  A shallow embedding of \<^verbatim>\<open>moench_tango_control_server.py\<close>: the class
  \<^verbatim>\<open>MoenchDetectorControl\<close>, its attribute writers and readers that carry logic,
  \<^verbatim>\<open>init_device\<close> and \<^verbatim>\<open>delete_device\<close>.

  Strings are HOL strings: a \<^typ>\<open>char\<close> is one code point below 256, which is what a
  Tango \<^verbatim>\<open>DevString\<close> delivers to Python (decoded as Latin-1).
\<close>

subsection \<open>Vendor types\<close>

text \<open>
  The enums and the address type of the vendor library, as the server uses them:
  \<^verbatim>\<open>detectorSettings(n)\<close>, \<^verbatim>\<open>frameDiscardPolicy(n)\<close> and \<^verbatim>\<open>IpAddr(s)\<close> are
  constructor calls on an integer or a string.
\<close>

datatype timingMode = AUTO_TIMING | TRIGGER_EXPOSURE | GATED | BURST_TRIGGER | TRIGGER_GATED

datatype detectorSettings = detectorSettings int

datatype frameDiscardPolicy = frameDiscardPolicy int

datatype IpAddr = IpAddr string

record Moench =
  timing :: timingMode
  settings :: detectorSettings
  rx_zmqip :: IpAddr
  rx_discardpolicy :: frameDiscardPolicy
  highvoltage :: int

subsection \<open>Python values and exceptions\<close>

datatype pyval = PyStr string | PyInt int | PyBool bool | PyNone

text \<open>
  \<^verbatim>\<open>KeyboardInterrupt\<close> and \<^verbatim>\<open>SystemExit\<close> derive from \<^verbatim>\<open>BaseException\<close> only;
  the others are instances of the class \<^verbatim>\<open>Exception\<close>. The payload is \<^verbatim>\<open>str(e)\<close>.
\<close>

datatype exc =
    RuntimeError string
  | TypeError string
  | OSError string
  | KeyboardInterrupt
  | SystemExit

fun is_Exception :: "exc \<Rightarrow> bool" where
  "is_Exception KeyboardInterrupt = False"
| "is_Exception SystemExit = False"
| "is_Exception _ = True"

fun is_RuntimeError :: "exc \<Rightarrow> bool" where
  "is_RuntimeError (RuntimeError _) = True"
| "is_RuntimeError _ = False"

fun exc_str :: "exc \<Rightarrow> string" where
  "exc_str (RuntimeError m) = m"
| "exc_str (TypeError m) = m"
| "exc_str (OSError m) = m"
| "exc_str KeyboardInterrupt = []"
| "exc_str SystemExit = []"

subsection \<open>The device server object\<close>

datatype DevState = ON | OFF | INIT | FAULT | UNKNOWN

datatype log_level = INFO | ERROR

datatype pc_call = Init_pc bool | Deactivate_pc bool

datatype det_call = Get string | Set string

text \<open>
  The fields of \<^verbatim>\<open>self\<close>: \<open>pc_util\<close> is the list of calls made on the
  \<^verbatim>\<open>ComputerSetup\<close> helper, \<open>det_calls\<close> the list of property accesses made on
  \<^verbatim>\<open>self.device\<close>, \<open>logs\<close> what \<^verbatim>\<open>info_stream\<close> and \<^verbatim>\<open>error_stream\<close> wrote.
\<close>

record server =
  pc_util :: "pc_call list"
  VIRTUAL :: bool
  dev_state :: DevState
  device :: Moench
  det_calls :: "det_call list"
  logs :: "(log_level \<times> string) list"

definition info_stream :: "string \<Rightarrow> server \<Rightarrow> server" where
  "info_stream msg s = s\<lparr>logs := logs s @ [(INFO, msg)]\<rparr>"

definition error_stream :: "string \<Rightarrow> server \<Rightarrow> server" where
  "error_stream msg s = s\<lparr>logs := logs s @ [(ERROR, msg)]\<rparr>"

definition set_state :: "DevState \<Rightarrow> server \<Rightarrow> server" where
  "set_state st s = s\<lparr>dev_state := st\<rparr>"

definition det_get :: "string \<Rightarrow> server \<Rightarrow> server" where
  "det_get name s = s\<lparr>det_calls := det_calls s @ [Get name]\<rparr>"

definition det_set :: "string \<Rightarrow> server \<Rightarrow> server" where
  "det_set name s = s\<lparr>det_calls := det_calls s @ [Set name]\<rparr>"

subsection \<open>Regular expressions\<close>

text \<open>
  The part of Python's \<^verbatim>\<open>re\<close> that the server's pattern uses: \<^verbatim>\<open>^\<close>, \<^verbatim>\<open>$\<close>,
  \<^verbatim>\<open>\d\<close>, an escaped literal character and the counted repetition \<^verbatim>\<open>{m,n}\<close>.
  Without flags, \<^verbatim>\<open>^\<close> holds at the start of the string only, and \<^verbatim>\<open>$\<close> holds at the
  end of the string and also just before a newline that is the last character.
  On code points below 256 the class \<^verbatim>\<open>\d\<close> is the ten ASCII digits.
  \<open>re_match_from r at0 s\<close> says that the items \<open>r\<close> match some prefix of the rest
  \<open>s\<close> of the subject, where \<open>at0\<close> tells whether the rest is the whole subject.
\<close>

datatype re_atom = Digit | Lit char

datatype re_item = Bol | Eol | Rep re_atom nat nat

fun atom_ok :: "re_atom \<Rightarrow> char \<Rightarrow> bool" where
  "atom_ok Digit c = (c \<in> set ''0123456789'')"
| "atom_ok (Lit d) c = (c = d)"

fun re_match_from :: "re_item list \<Rightarrow> bool \<Rightarrow> string \<Rightarrow> bool" where
  "re_match_from [] at0 s = True"
| "re_match_from (Bol # r) at0 s = (at0 \<and> re_match_from r at0 s)"
| "re_match_from (Eol # r) at0 s = ((s = [] \<or> s = [CHR 0x0A]) \<and> re_match_from r at0 s)"
| "re_match_from (Rep a lo hi # r) at0 s =
     list_ex (\<lambda>k. k \<le> length s \<and> list_all (atom_ok a) (take k s) \<and>
                  re_match_from r (at0 \<and> k = 0) (drop k s)) [lo..<Suc hi]"

definition re_match :: "re_item list \<Rightarrow> string \<Rightarrow> bool" where
  "re_match r s = re_match_from r True s"

text \<open>The pattern \<^verbatim>\<open>^\d{1,3}\.\d{1,3}\.\d{1,3}\.\d{1,3}$\<close>.\<close>

definition ip_pattern :: "re_item list" where
  "ip_pattern =
     [Bol, Rep Digit 1 3, Rep (Lit CHR ''.'') 1 1, Rep Digit 1 3, Rep (Lit CHR ''.'') 1 1,
      Rep Digit 1 3, Rep (Lit CHR ''.'') 1 1, Rep Digit 1 3, Eol]"

subsection \<open>Validated writers\<close>

definition write_zmqip :: "string \<Rightarrow> server \<Rightarrow> server" where
  "write_zmqip value s =
     (if re_match ip_pattern value
      then det_set ''rx_zmqip'' (s\<lparr>device := (device s)\<lparr>rx_zmqip := IpAddr value\<rparr>\<rparr>)
      else error_stream ''not valid ip address'' s)"

definition settings_dict :: "(string \<times> int) list" where
  "settings_dict =
     [(''G1_HIGHGAIN'', 13), (''G1_LOWGAIN'', 14), (''G2_HIGHCAP_HIGHGAIN'', 15),
      (''G2_HIGHCAP_LOWGAIN'', 16), (''G2_LOWCAP_HIGHGAIN'', 17), (''G2_LOWCAP_LOWGAIN'', 18),
      (''G4_HIGHGAIN'', 19), (''G4_LOWGAIN'', 20)]"

text \<open>
  \<^verbatim>\<open>value in list(d.keys())\<close> guards \<^verbatim>\<open>d[value]\<close>; a lookup that misses would be a
  \<^verbatim>\<open>KeyError\<close>, which the guard excludes, so that branch leaves the object alone.
\<close>

definition write_settings :: "string \<Rightarrow> server \<Rightarrow> server" where
  "write_settings value s =
     (if value \<in> set (map fst settings_dict)
      then (case map_of settings_dict value of
              Some n \<Rightarrow> det_set ''settings'' (s\<lparr>device := (device s)\<lparr>settings := detectorSettings n\<rparr>\<rparr>)
            | None \<Rightarrow> s)
      else s)"

definition disard_dict :: "(string \<times> int) list" where
  "disard_dict =
     [(''NO_DISCARD'', 0), (''DISCARD_EMPTY_FRAMES'', 1), (''DISCARD_PARTIAL_FRAMES'', 2)]"

definition write_rx_discardpolicy :: "string \<Rightarrow> server \<Rightarrow> server" where
  "write_rx_discardpolicy value s =
     (if value \<in> set (map fst disard_dict)
      then (case map_of disard_dict value of
              Some n \<Rightarrow> det_set ''rx_discardpolicy''
                         (s\<lparr>device := (device s)\<lparr>rx_discardpolicy := frameDiscardPolicy n\<rparr>\<rparr>)
            | None \<Rightarrow> s)
      else s)"

subsection \<open>Timing mode\<close>

text \<open>\<^verbatim>\<open>str.lower\<close> on code points below 256: the ASCII capitals and the accented
  capitals of Latin-1 (all of 192 to 222 but the multiplication sign 215) move up by 32.\<close>

definition char_lower :: "char \<Rightarrow> char" where
  "char_lower c =
     (let n = (of_char c :: nat)
      in if (65 \<le> n \<and> n \<le> 90) \<or> (192 \<le> n \<and> n \<le> 222 \<and> n \<noteq> 215)
         then char_of (n + 32) else c)"

definition lower :: "string \<Rightarrow> string" where
  "lower v = map char_lower v"

text \<open>
  \<^verbatim>\<open>read_timing_mode\<close> returns a string on two branches and falls off the end of the
  third, which in Python returns \<^verbatim>\<open>None\<close>. The property \<^verbatim>\<open>device.timing\<close> is read once
  for the first comparison and again for the second.
\<close>

definition read_timing_mode :: "server \<Rightarrow> string option \<times> server" where
  "read_timing_mode s =
     (let s1 = det_get ''timing'' s
      in if timing (device s1) = AUTO_TIMING then (Some ''AUTO'', s1)
         else let s2 = det_get ''timing'' s1
              in if timing (device s2) = TRIGGER_EXPOSURE then (Some ''EXT'', s2)
                 else (None, info_stream ''The timing mode is not assigned correctly.'' s2))"

definition write_timing_mode :: "pyval \<Rightarrow> server \<Rightarrow> server" where
  "write_timing_mode value s =
     (case value of
        PyStr v \<Rightarrow>
          if lower v = ''auto''
          then det_set ''timing''
                 ((info_stream ''Setting auto timing mode'' s)
                    \<lparr>device := (device s)\<lparr>timing := AUTO_TIMING\<rparr>\<rparr>)
          else if lower v = ''ext''
          then det_set ''timing''
                 ((info_stream ''Setting external timing mode'' s)
                    \<lparr>device := (device s)\<lparr>timing := TRIGGER_EXPOSURE\<rparr>\<rparr>)
          else s
      | _ \<Rightarrow> info_stream (''Timing mode should be '' @ [CHR 0x22] @ ''AUTO/EXT'' @ [CHR 0x22]
                            @ '' string'') s)"

subsection \<open>High voltage\<close>

datatype AttrWriteType = READ | READ_WRITE

record attribute_decl =
  label :: string
  dtype :: string
  unit :: "string option"
  min_value :: "int option"
  max_value :: "int option"
  min_warning :: "int option"
  max_warning :: "int option"
  access :: AttrWriteType

definition highvoltage_attr :: attribute_decl where
  "highvoltage_attr =
     \<lparr>label = ''high voltage on sensor'', dtype = ''int'', unit = Some ''V'',
      min_value = Some 60, max_value = Some 200, min_warning = Some 70,
      max_warning = Some 170, access = READ_WRITE\<rparr>"

text \<open>
  The assignment \<^verbatim>\<open>self.device.highvoltage = value\<close> runs the vendor's property setter,
  which either stores the value or raises. The setter is a parameter \<open>setter\<close>: it
  returns the detector after the assignment, or the exception it raised. A writer returns
  the server object together with the exception that leaves it, if any.
\<close>

definition write_highvoltage ::
    "(int \<Rightarrow> Moench \<Rightarrow> exc + Moench) \<Rightarrow> int \<Rightarrow> server \<Rightarrow> server \<times> exc option" where
  "write_highvoltage setter value s =
     (let s1 = det_set ''highvoltage'' s
      in case setter value (device s) of
           Inr d \<Rightarrow> (s1\<lparr>device := d\<rparr>, None)
         | Inl e \<Rightarrow>
             if is_RuntimeError e then (error_stream ''not allowed highvoltage'' s1, None)
             else (s1, Some e))"

subsection \<open>Start and teardown\<close>

text \<open>
  What the surroundings answer during \<^verbatim>\<open>init_device\<close> and \<^verbatim>\<open>delete_device\<close>:
  the launch arguments \<^verbatim>\<open>sys.argv\<close>, the truth value of what \<^verbatim>\<open>init_pc\<close> returns, the
  detector that \<^verbatim>\<open>Moench()\<close> constructs, the outcome of reading \<^verbatim>\<open>device.status\<close>
  (its text, or the exception raised) and the exception that \<^verbatim>\<open>deactivate_pc\<close> raises,
  if any.
\<close>

record env =
  argv :: "string list"
  init_pc_ret :: bool
  Moench_new :: Moench
  status_res :: "exc + string"
  deactivate_res :: "exc option"

definition delete_device :: "env \<Rightarrow> server \<Rightarrow> server \<times> exc option" where
  "delete_device e s =
     (let s1 = s\<lparr>pc_util := pc_util s @ [Deactivate_pc (VIRTUAL s)]\<rparr>
      in case deactivate_res e of
           None \<Rightarrow> (info_stream ''SlsReceiver or zmq socket processes were killed.'' s1, None)
         | Some x \<Rightarrow>
             if is_Exception x
             then (info_stream
                     ''Unable to kill slsReceiver or zmq socket. Please kill it manually.'' s1,
                   None)
             else (s1, Some x))"

text \<open>
  \<^verbatim>\<open>ComputerSetup()\<close> is a new helper object, so its list of calls starts empty, and so
  does the list of accesses to the new detector. \<^verbatim>\<open>Device.init_device(self)\<close> is the
  framework's own initialisation and touches none of the fields modelled here.
\<close>

definition init_device :: "env \<Rightarrow> server \<Rightarrow> server \<times> exc option" where
  "init_device e s =
     (let s1 = s\<lparr>pc_util := []\<rparr>;
          s2 = s1\<lparr>VIRTUAL := (if ''--virtual'' \<in> set (argv e) then True else False)\<rparr>;
          s3 = set_state INIT s2;
          s4 = s3\<lparr>pc_util := pc_util s3 @ [Init_pc (VIRTUAL s3)]\<rparr>;
          s5 = (if \<not> init_pc_ret e
                then info_stream
                       ''Unable to start slsReceiver or zmq socket. Check firewall process and already running instances.''
                       (set_state FAULT s4)
                else s4);
          s6 = s5\<lparr>device := Moench_new e, det_calls := []\<rparr>;
          s7 = det_get ''status'' s6
      in case status_res e of
           Inr st \<Rightarrow> (info_stream (''Current device status: '' @ st) s7, None)
         | Inl x \<Rightarrow>
             if is_RuntimeError x
             then delete_device e
                    (info_stream (''Unable to establish connection with detector'' @ [CHR 0x0A]
                                  @ exc_str x)
                       (set_state FAULT s7))
             else (s7, Some x))"

subsection \<open>Writers that do nothing\<close>

definition write_rx_missingpackets :: "pyval \<Rightarrow> server \<Rightarrow> server" where
  "write_rx_missingpackets value s = s"

definition write_rx_status :: "pyval \<Rightarrow> server \<Rightarrow> server" where
  "write_rx_status value s = s"

definition write_rx_version :: "pyval \<Rightarrow> server \<Rightarrow> server" where
  "write_rx_version value s = s"

definition write_firmware_version :: "pyval \<Rightarrow> server \<Rightarrow> server" where
  "write_firmware_version value s = s"

subsection \<open>Dotted quads\<close>

text \<open>
  The specification's wording of the accepted syntax, for comparison with the pattern:
  a group is one to three decimal digits, a dotted quad is four groups separated by dots.
\<close>

definition digit_group :: "string \<Rightarrow> bool" where
  "digit_group g \<longleftrightarrow> 1 \<le> length g \<and> length g \<le> 3 \<and> list_all (\<lambda>c. c \<in> set ''0123456789'') g"

definition dotted_quad :: "string \<Rightarrow> bool" where
  "dotted_quad v \<longleftrightarrow> (\<exists>a b c d. digit_group a \<and> digit_group b \<and> digit_group c \<and> digit_group d \<and>
      v = a @ ''.'' @ b @ ''.'' @ c @ ''.'' @ d)"

subsection \<open>Case-insensitive comparison\<close>

text \<open>
  The specification's wording of the accepted timing strings, for comparison with the
  test on \<^verbatim>\<open>value.lower()\<close>: two strings are the same up to the case of the ASCII
  letters.
\<close>

definition ascii_lower :: "char \<Rightarrow> char" where
  "ascii_lower c =
     (let n = (of_char c :: nat) in if 65 \<le> n \<and> n \<le> 90 then char_of (n + 32) else c)"

definition same_ignoring_case :: "string \<Rightarrow> string \<Rightarrow> bool" where
  "same_ignoring_case v w \<longleftrightarrow> map ascii_lower v = map ascii_lower w"

subsection \<open>Example objects\<close>

text \<open>A detector and a server object on which the properties below are evaluated.\<close>

definition Moench0 :: Moench where
  "Moench0 = \<lparr>timing = GATED, settings = detectorSettings 0, rx_zmqip = IpAddr ''0.0.0.0'',
     rx_discardpolicy = frameDiscardPolicy 0, highvoltage = 90\<rparr>"

definition server0 :: server where
  "server0 = \<lparr>pc_util = [], VIRTUAL = False, dev_state = UNKNOWN, device = Moench0,
     det_calls = [], logs = []\<rparr>"

text \<open>A vendor setter that refuses a high voltage outside 60 to 200, and the answers of
  the surroundings for a start with \<^verbatim>\<open>--virtual\<close>.\<close>

definition hv_setter0 :: "int \<Rightarrow> Moench \<Rightarrow> exc + Moench" where
  "hv_setter0 v d =
     (if 60 \<le> v \<and> v \<le> 200 then Inr (d\<lparr>highvoltage := v\<rparr>)
      else Inl (RuntimeError ''invalid high voltage''))"

definition env0 :: env where
  "env0 = \<lparr>argv = [''moench_tango_control_server.py'', ''moench'', ''--virtual''],
     init_pc_ret = False, Moench_new = Moench0, status_res = Inr ''IDLE'',
     deactivate_res = Some (OSError ''No such process'')\<rparr>"

section \<open>Properties\<close>

subsection \<open>Auxiliary facts\<close>

text \<open>An assignment on the detector is recorded, so its result differs from the object
  it started from.\<close>

lemma det_set_neq: "det_set n (s\<lparr>device := d\<rparr>) \<noteq> s"
proof
  assume "det_set n (s\<lparr>device := d\<rparr>) = s"
  then have "det_calls (det_set n (s\<lparr>device := d\<rparr>)) = det_calls s" by simp
  then show False by (simp add: det_set_def)
qed

lemma lower_AUTO: "lower ''AUTO'' = ''auto''"
  by code_simp

lemma lower_EXT: "lower ''EXT'' = ''ext''"
  by code_simp

lemma lower_manual: "lower ''manual'' = ''manual''"
  by code_simp

text \<open>
  On the code points below 256 only an ASCII capital is lowered to an ASCII letter, so
  comparing \<^verbatim>\<open>value.lower()\<close> with an ASCII word is comparing up to ASCII case.
\<close>

lemma of_char_lt: "(of_char c :: nat) < 256"
  by (cases c) simp

lemma of_char_shift:
  assumes "(of_char c :: nat) \<le> 222"
  shows "(of_char (char_of (of_char c + 32 :: nat)) :: nat) = of_char c + 32"
  using assms by simp

lemma char_lower_ascii:
  assumes "(of_char t :: nat) < 128"
  shows "char_lower c = t \<longleftrightarrow> ascii_lower c = t"
proof (cases "192 \<le> (of_char c :: nat) \<and> (of_char c :: nat) \<le> 222 \<and> (of_char c :: nat) \<noteq> 215")
  case True
  then have "(of_char (char_lower c) :: nat) = of_char c + 32"
    by (simp add: char_lower_def Let_def)
  then have "char_lower c \<noteq> t" using assms True by auto
  moreover have "ascii_lower c = c" using True by (simp add: ascii_lower_def Let_def)
  moreover have "c \<noteq> t" using assms True by auto
  ultimately show ?thesis by simp
next
  case False
  then show ?thesis by (auto simp: char_lower_def ascii_lower_def Let_def)
qed

lemma lower_ascii:
  assumes "list_all (\<lambda>t. (of_char t :: nat) < 128) w"
  shows "lower v = w \<longleftrightarrow> map ascii_lower v = w"
  using assms
proof (induction v arbitrary: w)
  case Nil
  then show ?case by (simp add: lower_def)
next
  case (Cons c v)
  show ?case
  proof (cases w)
    case Nil
    then show ?thesis by (simp add: lower_def)
  next
    case (Cons t w')
    with Cons.prems have t: "(of_char t :: nat) < 128" and w': "list_all (\<lambda>t. (of_char t :: nat) < 128) w'"
      by simp_all
    from Cons.IH[OF w'] char_lower_ascii[OF t, of c] Cons show ?thesis
      by (simp add: lower_def)
  qed
qed

lemma lower_auto_iff: "lower v = ''auto'' \<longleftrightarrow> same_ignoring_case v ''auto''"
proof -
  have "map ascii_lower ''auto'' = ''auto''" by code_simp
  moreover have "lower v = ''auto'' \<longleftrightarrow> map ascii_lower v = ''auto''"
    by (rule lower_ascii) simp
  ultimately show ?thesis by (simp add: same_ignoring_case_def)
qed

lemma lower_ext_iff: "lower v = ''ext'' \<longleftrightarrow> same_ignoring_case v ''ext''"
proof -
  have "map ascii_lower ''ext'' = ''ext''" by code_simp
  moreover have "lower v = ''ext'' \<longleftrightarrow> map ascii_lower v = ''ext''"
    by (rule lower_ascii) simp
  ultimately show ?thesis by (simp add: same_ignoring_case_def)
qed

text \<open>What \<^verbatim>\<open>init_device\<close> and \<^verbatim>\<open>delete_device\<close> leave in the fields, by cases on the
  answers of the surroundings.\<close>

lemma delete_device_pc_util:
  "pc_util (fst (delete_device e s)) = pc_util s @ [Deactivate_pc (VIRTUAL s)]"
  by (cases "deactivate_res e") (simp_all add: delete_device_def Let_def info_stream_def)

lemma init_device_VIRTUAL:
  "VIRTUAL (fst (init_device e s)) = (''--virtual'' \<in> set (argv e))"
proof (cases "status_res e")
  case (Inl x)
  then show ?thesis
    by (cases "deactivate_res e")
      (simp_all add: init_device_def delete_device_def Let_def set_state_def info_stream_def
        det_get_def)
next
  case (Inr st)
  then show ?thesis
    by (simp add: init_device_def Let_def set_state_def info_stream_def det_get_def)
qed

lemma init_device_pc_util:
  "pc_util (fst (init_device e s)) =
     (if (\<exists>x. status_res e = Inl x \<and> is_RuntimeError x)
      then [Init_pc (''--virtual'' \<in> set (argv e)), Deactivate_pc (''--virtual'' \<in> set (argv e))]
      else [Init_pc (''--virtual'' \<in> set (argv e))])"
proof (cases "status_res e")
  case (Inl x)
  then show ?thesis
    by (cases "deactivate_res e")
      (simp_all add: init_device_def delete_device_def Let_def set_state_def info_stream_def
        det_get_def)
next
  case (Inr st)
  then show ?thesis
    by (simp add: init_device_def Let_def set_state_def info_stream_def det_get_def)
qed

lemma init_device_fault:
  assumes "\<not> init_pc_ret e"
  shows "dev_state (fst (init_device e s)) = FAULT \<and>
    (INFO, ''Unable to start slsReceiver or zmq socket. Check firewall process and already running instances.'')
      \<in> set (logs (fst (init_device e s)))"
proof (cases "status_res e")
  case (Inl x)
  with assms show ?thesis
    by (cases "deactivate_res e")
      (simp_all add: init_device_def delete_device_def Let_def set_state_def info_stream_def
        det_get_def)
next
  case (Inr st)
  with assms show ?thesis
    by (simp add: init_device_def Let_def set_state_def info_stream_def det_get_def)
qed

text \<open>
  A counted repetition splits the subject into the repeated part and the rest; from there
  the pattern is read off item by item. Its matches are the dotted quads and, because
  \<^verbatim>\<open>$\<close> also holds before a final newline, the dotted quads followed by one newline.
\<close>

lemma rep_iff:
  "re_match_from (Rep a lo hi # r) at0 s \<longleftrightarrow>
   (\<exists>g t. s = g @ t \<and> lo \<le> length g \<and> length g \<le> hi \<and> list_all (atom_ok a) g \<and>
          re_match_from r (at0 \<and> g = []) t)"
proof
  assume "re_match_from (Rep a lo hi # r) at0 s"
  then obtain k where k: "lo \<le> k" "k \<le> hi" "k \<le> length s" "list_all (atom_ok a) (take k s)"
      "re_match_from r (at0 \<and> k = 0) (drop k s)"
    by (auto simp: list_ex_iff)
  have e: "(take k s = []) = (k = 0)" using k(3) by auto
  show "\<exists>g t. s = g @ t \<and> lo \<le> length g \<and> length g \<le> hi \<and> list_all (atom_ok a) g \<and>
          re_match_from r (at0 \<and> g = []) t"
    apply (rule exI[of _ "take k s"])
    apply (rule exI[of _ "drop k s"])
    using k e by (simp add: min_absorb2)
next
  assume "\<exists>g t. s = g @ t \<and> lo \<le> length g \<and> length g \<le> hi \<and> list_all (atom_ok a) g \<and>
          re_match_from r (at0 \<and> g = []) t"
  then obtain g t where g: "s = g @ t" "lo \<le> length g" "length g \<le> hi" "list_all (atom_ok a) g"
      "re_match_from r (at0 \<and> g = []) t" by blast
  have "length g \<in> set [lo..<Suc hi]" using g(2,3) by auto
  moreover have "length g \<le> length s \<and> list_all (atom_ok a) (take (length g) s) \<and>
      re_match_from r (at0 \<and> length g = 0) (drop (length g) s)"
    using g by simp
  ultimately show "re_match_from (Rep a lo hi # r) at0 s"
    unfolding re_match_from.simps list_ex_iff by blast
qed

lemma atom_ok_Digit: "list_all (atom_ok Digit) g = list_all (\<lambda>c. c \<in> set ''0123456789'') g"
  by (simp add: list_all_iff)

lemma digits_iff:
  "re_match_from (Rep Digit 1 3 # r) at0 s \<longleftrightarrow>
   (\<exists>g t. s = g @ t \<and> digit_group g \<and> re_match_from r False t)"
proof -
  have "(1 \<le> length g \<and> length g \<le> 3 \<and> list_all (atom_ok Digit) g \<and>
          re_match_from r (at0 \<and> g = []) t) = (digit_group g \<and> re_match_from r False t)" for g t
  proof (cases g)
    case Nil
    then show ?thesis by (simp add: digit_group_def)
  next
    case (Cons x xs)
    then show ?thesis by (simp add: digit_group_def list_all_iff)
  qed
  then show ?thesis by (simp only: rep_iff)
qed

lemma lit_iff:
  "re_match_from (Rep (Lit c) 1 1 # r) at0 s \<longleftrightarrow> (\<exists>t. s = c # t \<and> re_match_from r False t)"
proof -
  have key: "(1 \<le> length g \<and> length g \<le> 1 \<and> list_all (atom_ok (Lit c)) g \<and>
          re_match_from r (at0 \<and> g = []) t) = (g = [c] \<and> re_match_from r False t)" for g t
  proof (cases g)
    case Nil
    then show ?thesis by simp
  next
    case (Cons x xs)
    then show ?thesis by (cases xs) auto
  qed
  have "re_match_from (Rep (Lit c) 1 1 # r) at0 s \<longleftrightarrow>
      (\<exists>g t. s = g @ t \<and> g = [c] \<and> re_match_from r False t)"
    by (simp only: rep_iff key)
  also have "\<dots> \<longleftrightarrow> (\<exists>t. s = c # t \<and> re_match_from r False t)"
    by auto
  finally show ?thesis .
qed

lemma group_dot_iff:
  "re_match_from (Rep Digit 1 3 # Rep (Lit CHR ''.'') 1 1 # r) at0 s \<longleftrightarrow>
   (\<exists>a t. digit_group a \<and> s = a @ ''.'' @ t \<and> re_match_from r False t)"
  unfolding digits_iff lit_iff by auto

lemma last_group_iff:
  "re_match_from [Rep Digit 1 3, Eol] at0 s \<longleftrightarrow>
   (\<exists>d. digit_group d \<and> (s = d \<or> s = d @ [CHR 0x0A]))"
  unfolding digits_iff by auto

lemma ip_pattern_unfold:
  "re_match ip_pattern v \<longleftrightarrow>
   (\<exists>a t. digit_group a \<and> v = a @ ''.'' @ t \<and>
      (\<exists>b u. digit_group b \<and> t = b @ ''.'' @ u \<and>
         (\<exists>c w. digit_group c \<and> u = c @ ''.'' @ w \<and>
            (\<exists>d. digit_group d \<and> (w = d \<or> w = d @ [CHR 0x0A])))))"
  unfolding re_match_def ip_pattern_def re_match_from.simps(2) group_dot_iff last_group_iff
  by simp

lemma ip_pattern_iff:
  "re_match ip_pattern v \<longleftrightarrow> dotted_quad v \<or> (\<exists>w. dotted_quad w \<and> v = w @ [CHR 0x0A])"
proof
  assume "re_match ip_pattern v"
  then obtain a b c d w where g: "digit_group a" "digit_group b" "digit_group c" "digit_group d"
    and v: "v = a @ ''.'' @ b @ ''.'' @ c @ ''.'' @ w"
    and w: "w = d \<or> w = d @ [CHR 0x0A]"
    unfolding ip_pattern_unfold by blast
  from w show "dotted_quad v \<or> (\<exists>w. dotted_quad w \<and> v = w @ [CHR 0x0A])"
  proof
    assume "w = d"
    with g v have "dotted_quad v" unfolding dotted_quad_def by blast
    then show ?thesis ..
  next
    assume "w = d @ [CHR 0x0A]"
    with v have "v = (a @ ''.'' @ b @ ''.'' @ c @ ''.'' @ d) @ [CHR 0x0A]" by simp
    moreover from g have "dotted_quad (a @ ''.'' @ b @ ''.'' @ c @ ''.'' @ d)"
      unfolding dotted_quad_def by blast
    ultimately show ?thesis by blast
  qed
next
  assume "dotted_quad v \<or> (\<exists>w. dotted_quad w \<and> v = w @ [CHR 0x0A])"
  then obtain a b c d w where g: "digit_group a" "digit_group b" "digit_group c" "digit_group d"
    and v: "v = a @ ''.'' @ b @ ''.'' @ c @ ''.'' @ w"
    and w: "w = d \<or> w = d @ [CHR 0x0A]"
    unfolding dotted_quad_def by auto
  show "re_match ip_pattern v"
    unfolding ip_pattern_unfold using g v w by blast
qed

lemma re_match_example: "re_match ip_pattern ''192.168.1.10''"
  by code_simp

lemma re_match_hostname: "\<not> re_match ip_pattern ''localhost''"
  by code_simp

lemma dotted_quad_999: "dotted_quad ''999.999.999.999''"
  unfolding dotted_quad_def
  apply (rule exI[of _ "''999''"])
  apply (rule exI[of _ "''999''"])
  apply (rule exI[of _ "''999''"])
  apply (rule exI[of _ "''999''"])
  apply (simp add: digit_group_def)
  done

subsection \<open>Read-only attributes\<close>

text \<open>
  C4: the writers of \<^verbatim>\<open>rx_missingpackets\<close>, \<^verbatim>\<open>rx_status\<close>, \<^verbatim>\<open>rx_version\<close> and
  \<^verbatim>\<open>firmware_version\<close> return the server object as it was, for every value: no
  access to the detector is recorded, no field of the server or of the detector changes,
  and nothing is logged.
\<close>

theorem readonly_writers_noop:
  "write_rx_missingpackets value s = s \<and> write_rx_status value s = s \<and>
   write_rx_version value s = s \<and> write_firmware_version value s = s \<and>
   det_calls (write_rx_missingpackets value s) = det_calls s \<and>
   det_calls (write_rx_status value s) = det_calls s \<and>
   det_calls (write_rx_version value s) = det_calls s \<and>
   det_calls (write_firmware_version value s) = det_calls s \<and>
   logs (write_rx_missingpackets value s) = logs s \<and>
   logs (write_rx_status value s) = logs s \<and>
   logs (write_rx_version value s) = logs s \<and>
   logs (write_firmware_version value s) = logs s"
  by (simp add: write_rx_missingpackets_def write_rx_status_def write_rx_version_def
      write_firmware_version_def)

subsection \<open>Gain settings\<close>

text \<open>
  C2: \<^verbatim>\<open>write_settings\<close> assigns \<^verbatim>\<open>detectorSettings(n)\<close> to the detector's
  \<^verbatim>\<open>settings\<close>, with \<open>n\<close> the number of the name (13 to 20 for the eight names), if and
  only if the value is one of the eight names; for every other string the server object
  comes back as it was, so nothing is logged, nothing is raised and no state changes.
\<close>

theorem write_settings_spec:
  "(value = ''G1_HIGHGAIN'' \<longrightarrow> write_settings value s =
      det_set ''settings'' (s\<lparr>device := (device s)\<lparr>settings := detectorSettings 13\<rparr>\<rparr>)) \<and>
   (value = ''G1_LOWGAIN'' \<longrightarrow> write_settings value s =
      det_set ''settings'' (s\<lparr>device := (device s)\<lparr>settings := detectorSettings 14\<rparr>\<rparr>)) \<and>
   (value = ''G2_HIGHCAP_HIGHGAIN'' \<longrightarrow> write_settings value s =
      det_set ''settings'' (s\<lparr>device := (device s)\<lparr>settings := detectorSettings 15\<rparr>\<rparr>)) \<and>
   (value = ''G2_HIGHCAP_LOWGAIN'' \<longrightarrow> write_settings value s =
      det_set ''settings'' (s\<lparr>device := (device s)\<lparr>settings := detectorSettings 16\<rparr>\<rparr>)) \<and>
   (value = ''G2_LOWCAP_HIGHGAIN'' \<longrightarrow> write_settings value s =
      det_set ''settings'' (s\<lparr>device := (device s)\<lparr>settings := detectorSettings 17\<rparr>\<rparr>)) \<and>
   (value = ''G2_LOWCAP_LOWGAIN'' \<longrightarrow> write_settings value s =
      det_set ''settings'' (s\<lparr>device := (device s)\<lparr>settings := detectorSettings 18\<rparr>\<rparr>)) \<and>
   (value = ''G4_HIGHGAIN'' \<longrightarrow> write_settings value s =
      det_set ''settings'' (s\<lparr>device := (device s)\<lparr>settings := detectorSettings 19\<rparr>\<rparr>)) \<and>
   (value = ''G4_LOWGAIN'' \<longrightarrow> write_settings value s =
      det_set ''settings'' (s\<lparr>device := (device s)\<lparr>settings := detectorSettings 20\<rparr>\<rparr>)) \<and>
   ((\<exists>n. write_settings value s =
          det_set ''settings'' (s\<lparr>device := (device s)\<lparr>settings := detectorSettings n\<rparr>\<rparr>)) \<longleftrightarrow>
    value \<in> {''G1_HIGHGAIN'', ''G1_LOWGAIN'', ''G2_HIGHCAP_HIGHGAIN'', ''G2_HIGHCAP_LOWGAIN'',
             ''G2_LOWCAP_HIGHGAIN'', ''G2_LOWCAP_LOWGAIN'', ''G4_HIGHGAIN'', ''G4_LOWGAIN''}) \<and>
   (value \<notin> {''G1_HIGHGAIN'', ''G1_LOWGAIN'', ''G2_HIGHCAP_HIGHGAIN'', ''G2_HIGHCAP_LOWGAIN'',
             ''G2_LOWCAP_HIGHGAIN'', ''G2_LOWCAP_LOWGAIN'', ''G4_HIGHGAIN'', ''G4_LOWGAIN''} \<longrightarrow>
    write_settings value s = s)"
proof -
  have neq: "\<And>n. s \<noteq> det_set ''settings'' (s\<lparr>device := (device s)\<lparr>settings := detectorSettings n\<rparr>\<rparr>)"
    using det_set_neq by metis
  show ?thesis
    using neq by (auto simp: write_settings_def settings_dict_def)
qed

theorem write_settings_spec_witness:
  "settings (device (write_settings ''G1_HIGHGAIN'' server0)) = detectorSettings 13 \<and>
   settings (device (write_settings ''G1_LOWGAIN'' server0)) = detectorSettings 14 \<and>
   settings (device (write_settings ''G2_HIGHCAP_HIGHGAIN'' server0)) = detectorSettings 15 \<and>
   settings (device (write_settings ''G2_HIGHCAP_LOWGAIN'' server0)) = detectorSettings 16 \<and>
   settings (device (write_settings ''G2_LOWCAP_HIGHGAIN'' server0)) = detectorSettings 17 \<and>
   settings (device (write_settings ''G2_LOWCAP_LOWGAIN'' server0)) = detectorSettings 18 \<and>
   settings (device (write_settings ''G4_HIGHGAIN'' server0)) = detectorSettings 19 \<and>
   settings (device (write_settings ''G4_LOWGAIN'' server0)) = detectorSettings 20 \<and>
   det_calls (write_settings ''G1_HIGHGAIN'' server0) = [Set ''settings''] \<and>
   write_settings ''g1_highgain'' server0 = server0"
  using write_settings_spec [of "''G1_HIGHGAIN''" server0]
    write_settings_spec [of "''G1_LOWGAIN''" server0]
    write_settings_spec [of "''G2_HIGHCAP_HIGHGAIN''" server0]
    write_settings_spec [of "''G2_HIGHCAP_LOWGAIN''" server0]
    write_settings_spec [of "''G2_LOWCAP_HIGHGAIN''" server0]
    write_settings_spec [of "''G2_LOWCAP_LOWGAIN''" server0]
    write_settings_spec [of "''G4_HIGHGAIN''" server0]
    write_settings_spec [of "''G4_LOWGAIN''" server0]
    write_settings_spec [of "''g1_highgain''" server0]
  by (simp add: det_set_def server0_def)

subsection \<open>Discard policy\<close>

text \<open>
  C3: \<^verbatim>\<open>write_rx_discardpolicy\<close> assigns \<^verbatim>\<open>frameDiscardPolicy(n)\<close> to the detector's
  \<^verbatim>\<open>rx_discardpolicy\<close> if and only if the value is \<^verbatim>\<open>NO_DISCARD\<close>,
  \<^verbatim>\<open>DISCARD_EMPTY_FRAMES\<close> or \<^verbatim>\<open>DISCARD_PARTIAL_FRAMES\<close> (numbers 0, 1, 2); every
  other string, the documented names \<^verbatim>\<open>DISCARD_EMPTY\<close> and \<^verbatim>\<open>DISCARD_PARTIAL\<close> among
  them, leaves the server object as it was.
\<close>

theorem write_rx_discardpolicy_spec:
  "(value = ''NO_DISCARD'' \<longrightarrow> write_rx_discardpolicy value s =
      det_set ''rx_discardpolicy''
        (s\<lparr>device := (device s)\<lparr>rx_discardpolicy := frameDiscardPolicy 0\<rparr>\<rparr>)) \<and>
   (value = ''DISCARD_EMPTY_FRAMES'' \<longrightarrow> write_rx_discardpolicy value s =
      det_set ''rx_discardpolicy''
        (s\<lparr>device := (device s)\<lparr>rx_discardpolicy := frameDiscardPolicy 1\<rparr>\<rparr>)) \<and>
   (value = ''DISCARD_PARTIAL_FRAMES'' \<longrightarrow> write_rx_discardpolicy value s =
      det_set ''rx_discardpolicy''
        (s\<lparr>device := (device s)\<lparr>rx_discardpolicy := frameDiscardPolicy 2\<rparr>\<rparr>)) \<and>
   ((\<exists>n. write_rx_discardpolicy value s =
          det_set ''rx_discardpolicy''
            (s\<lparr>device := (device s)\<lparr>rx_discardpolicy := frameDiscardPolicy n\<rparr>\<rparr>)) \<longleftrightarrow>
    value \<in> {''NO_DISCARD'', ''DISCARD_EMPTY_FRAMES'', ''DISCARD_PARTIAL_FRAMES''}) \<and>
   (value \<notin> {''NO_DISCARD'', ''DISCARD_EMPTY_FRAMES'', ''DISCARD_PARTIAL_FRAMES''} \<longrightarrow>
    write_rx_discardpolicy value s = s) \<and>
   write_rx_discardpolicy ''DISCARD_EMPTY'' s = s \<and>
   write_rx_discardpolicy ''DISCARD_PARTIAL'' s = s"
proof -
  have neq: "\<And>n. s \<noteq> det_set ''rx_discardpolicy''
      (s\<lparr>device := (device s)\<lparr>rx_discardpolicy := frameDiscardPolicy n\<rparr>\<rparr>)"
    using det_set_neq by metis
  show ?thesis
    using neq by (auto simp: write_rx_discardpolicy_def disard_dict_def)
qed

theorem write_rx_discardpolicy_spec_witness:
  "rx_discardpolicy (device (write_rx_discardpolicy ''NO_DISCARD'' server0))
     = frameDiscardPolicy 0 \<and>
   rx_discardpolicy (device (write_rx_discardpolicy ''DISCARD_EMPTY_FRAMES'' server0))
     = frameDiscardPolicy 1 \<and>
   rx_discardpolicy (device (write_rx_discardpolicy ''DISCARD_PARTIAL_FRAMES'' server0))
     = frameDiscardPolicy 2 \<and>
   det_calls (write_rx_discardpolicy ''DISCARD_EMPTY_FRAMES'' server0) = [Set ''rx_discardpolicy''] \<and>
   write_rx_discardpolicy ''discard'' server0 = server0"
  using write_rx_discardpolicy_spec [of "''NO_DISCARD''" server0]
    write_rx_discardpolicy_spec [of "''DISCARD_EMPTY_FRAMES''" server0]
    write_rx_discardpolicy_spec [of "''DISCARD_PARTIAL_FRAMES''" server0]
    write_rx_discardpolicy_spec [of "''discard''" server0]
  by (simp add: det_set_def server0_def)

subsection \<open>Timing mode\<close>

text \<open>
  C5: writing \<^verbatim>\<open>"AUTO"\<close> sets \<^verbatim>\<open>device.timing\<close> to \<^verbatim>\<open>AUTO_TIMING\<close> and writing
  \<^verbatim>\<open>"EXT"\<close> sets it to \<^verbatim>\<open>TRIGGER_EXPOSURE\<close>; reading returns \<^verbatim>\<open>"AUTO"\<close> for
  \<^verbatim>\<open>AUTO_TIMING\<close> and \<^verbatim>\<open>"EXT"\<close> for \<^verbatim>\<open>TRIGGER_EXPOSURE\<close>; a write of either string
  followed by a read returns the same string.
\<close>

theorem timing_mode_mapping:
  "write_timing_mode (PyStr ''AUTO'') s =
     det_set ''timing'' ((info_stream ''Setting auto timing mode'' s)
                           \<lparr>device := (device s)\<lparr>timing := AUTO_TIMING\<rparr>\<rparr>) \<and>
   timing (device (write_timing_mode (PyStr ''AUTO'') s)) = AUTO_TIMING \<and>
   write_timing_mode (PyStr ''EXT'') s =
     det_set ''timing'' ((info_stream ''Setting external timing mode'' s)
                           \<lparr>device := (device s)\<lparr>timing := TRIGGER_EXPOSURE\<rparr>\<rparr>) \<and>
   timing (device (write_timing_mode (PyStr ''EXT'') s)) = TRIGGER_EXPOSURE \<and>
   (timing (device s) = AUTO_TIMING \<longrightarrow> fst (read_timing_mode s) = Some ''AUTO'') \<and>
   (timing (device s) = TRIGGER_EXPOSURE \<longrightarrow> fst (read_timing_mode s) = Some ''EXT'') \<and>
   fst (read_timing_mode (write_timing_mode (PyStr ''AUTO'') s)) = Some ''AUTO'' \<and>
   fst (read_timing_mode (write_timing_mode (PyStr ''EXT'') s)) = Some ''EXT''"
  by (simp add: write_timing_mode_def read_timing_mode_def lower_AUTO lower_EXT det_set_def
      det_get_def info_stream_def Let_def)

theorem timing_mode_mapping_witness:
  "fst (read_timing_mode (server0\<lparr>device := Moench0\<lparr>timing := AUTO_TIMING\<rparr>\<rparr>)) = Some ''AUTO'' \<and>
   fst (read_timing_mode (server0\<lparr>device := Moench0\<lparr>timing := TRIGGER_EXPOSURE\<rparr>\<rparr>)) = Some ''EXT''"
  using timing_mode_mapping [of "server0\<lparr>device := Moench0\<lparr>timing := AUTO_TIMING\<rparr>\<rparr>"]
    timing_mode_mapping [of "server0\<lparr>device := Moench0\<lparr>timing := TRIGGER_EXPOSURE\<rparr>\<rparr>"]
  by simp

text \<open>
  C10: when \<^verbatim>\<open>device.timing\<close> is neither \<^verbatim>\<open>AUTO_TIMING\<close> nor \<^verbatim>\<open>TRIGGER_EXPOSURE\<close>,
  \<^verbatim>\<open>read_timing_mode\<close> returns \<^verbatim>\<open>None\<close> and only logs an informational message (after
  reading the property twice); \<^verbatim>\<open>write_timing_mode\<close> leaves the object as it was for a
  string whose lower-case form is neither \<^verbatim>\<open>auto\<close> nor \<^verbatim>\<open>ext\<close>, that is, for every
  string other than these two words up to case, which it accepts; and it only logs for
  a value that is not a string.
\<close>

theorem timing_mode_partial:
  "(timing (device s) \<noteq> AUTO_TIMING \<and> timing (device s) \<noteq> TRIGGER_EXPOSURE \<longrightarrow>
      read_timing_mode s =
        (None, info_stream ''The timing mode is not assigned correctly.''
                 (det_get ''timing'' (det_get ''timing'' s)))) \<and>
   (lower v \<noteq> ''auto'' \<and> lower v \<noteq> ''ext'' \<longrightarrow> write_timing_mode (PyStr v) s = s) \<and>
   (\<not> same_ignoring_case v ''auto'' \<and> \<not> same_ignoring_case v ''ext'' \<longrightarrow>
      write_timing_mode (PyStr v) s = s) \<and>
   (same_ignoring_case v ''auto'' \<longrightarrow>
      timing (device (write_timing_mode (PyStr v) s)) = AUTO_TIMING) \<and>
   (same_ignoring_case v ''ext'' \<longrightarrow>
      timing (device (write_timing_mode (PyStr v) s)) = TRIGGER_EXPOSURE) \<and>
   ((\<forall>w. value \<noteq> PyStr w) \<longrightarrow>
      write_timing_mode value s =
        info_stream (''Timing mode should be '' @ [CHR 0x22] @ ''AUTO/EXT'' @ [CHR 0x22]
                     @ '' string'') s)"
proof -
  have ne: "\<not> (same_ignoring_case v ''auto'' \<and> same_ignoring_case v ''ext'')"
    by (auto simp: same_ignoring_case_def)
  have str: "write_timing_mode (PyStr v) s =
      (if same_ignoring_case v ''auto''
       then det_set ''timing'' ((info_stream ''Setting auto timing mode'' s)
                                  \<lparr>device := (device s)\<lparr>timing := AUTO_TIMING\<rparr>\<rparr>)
       else if same_ignoring_case v ''ext''
       then det_set ''timing'' ((info_stream ''Setting external timing mode'' s)
                                  \<lparr>device := (device s)\<lparr>timing := TRIGGER_EXPOSURE\<rparr>\<rparr>)
       else s)"
    by (simp add: write_timing_mode_def lower_auto_iff lower_ext_iff)
  have other: "(\<forall>w. value \<noteq> PyStr w) \<longrightarrow>
      write_timing_mode value s =
        info_stream (''Timing mode should be '' @ [CHR 0x22] @ ''AUTO/EXT'' @ [CHR 0x22]
                     @ '' string'') s"
    by (cases "value") (simp_all add: write_timing_mode_def)
  have rd: "timing (device s) \<noteq> AUTO_TIMING \<and> timing (device s) \<noteq> TRIGGER_EXPOSURE \<longrightarrow>
      read_timing_mode s =
        (None, info_stream ''The timing mode is not assigned correctly.''
                 (det_get ''timing'' (det_get ''timing'' s)))"
    by (simp add: read_timing_mode_def det_get_def Let_def)
  show ?thesis
    using ne rd other
    by (simp add: str lower_auto_iff lower_ext_iff det_set_def info_stream_def)
qed

theorem timing_mode_partial_witness:
  "fst (read_timing_mode server0) = None \<and>
   logs (snd (read_timing_mode server0)) = [(INFO, ''The timing mode is not assigned correctly.'')] \<and>
   \<not> same_ignoring_case ''manual'' ''auto'' \<and> \<not> same_ignoring_case ''manual'' ''ext'' \<and>
   write_timing_mode (PyStr ''manual'') server0 = server0 \<and>
   same_ignoring_case ''Auto'' ''auto'' \<and>
   timing (device (write_timing_mode (PyStr ''Auto'') server0)) = AUTO_TIMING \<and>
   same_ignoring_case ''eXt'' ''ext'' \<and>
   timing (device (write_timing_mode (PyStr ''eXt'') server0)) = TRIGGER_EXPOSURE \<and>
   device (write_timing_mode (PyInt 1) server0) = device server0 \<and>
   det_calls (write_timing_mode (PyInt 1) server0) = []"
proof -
  have m: "\<not> same_ignoring_case ''manual'' ''auto''" "\<not> same_ignoring_case ''manual'' ''ext''"
    by (simp_all add: same_ignoring_case_def)
  have a: "same_ignoring_case ''Auto'' ''auto''" "same_ignoring_case ''eXt'' ''ext''"
    unfolding same_ignoring_case_def by code_simp+
  show ?thesis
    using timing_mode_partial [of server0 "''manual''" "PyInt 1"]
      timing_mode_partial [of server0 "''Auto''" "PyInt 1"]
      timing_mode_partial [of server0 "''eXt''" "PyInt 1"] m a
    by (simp add: server0_def Moench0_def lower_manual info_stream_def det_get_def)
qed

subsection \<open>High voltage\<close>

text \<open>
  C6: the \<^verbatim>\<open>highvoltage\<close> attribute is declared with the bounds 60 and 200 and the
  warning bounds 70 and 170; when the vendor's setter raises a \<^verbatim>\<open>RuntimeError\<close>,
  \<^verbatim>\<open>write_highvoltage\<close> returns normally (no exception leaves it), the detector is the
  one from before the call, and the log has one more entry, the error message.
\<close>

theorem write_highvoltage_spec:
  "min_value highvoltage_attr = Some 60 \<and> max_value highvoltage_attr = Some 200 \<and>
   min_warning highvoltage_attr = Some 70 \<and> max_warning highvoltage_attr = Some 170 \<and>
   (setter value (device s) = Inl x \<and> is_RuntimeError x \<longrightarrow>
      write_highvoltage setter value s =
        (error_stream ''not allowed highvoltage'' (det_set ''highvoltage'' s), None) \<and>
      snd (write_highvoltage setter value s) = None \<and>
      device (fst (write_highvoltage setter value s)) = device s \<and>
      logs (fst (write_highvoltage setter value s)) = logs s @ [(ERROR, ''not allowed highvoltage'')])"
  by (simp add: highvoltage_attr_def write_highvoltage_def error_stream_def det_set_def Let_def)

theorem write_highvoltage_spec_witness:
  "hv_setter0 300 (device server0) = Inl (RuntimeError ''invalid high voltage'') \<and>
   snd (write_highvoltage hv_setter0 300 server0) = None \<and>
   device (fst (write_highvoltage hv_setter0 300 server0)) = Moench0 \<and>
   logs (fst (write_highvoltage hv_setter0 300 server0)) = [(ERROR, ''not allowed highvoltage'')]"
  using write_highvoltage_spec [of hv_setter0 300 server0 "RuntimeError ''invalid high voltage''"]
  by (simp add: hv_setter0_def server0_def error_stream_def det_set_def)

subsection \<open>Start and teardown\<close>

text \<open>
  C7: \<^verbatim>\<open>init_device\<close> calls \<^verbatim>\<open>init_pc\<close> once, with \<^verbatim>\<open>virtual=True\<close> if and only if
  \<^verbatim>\<open>--virtual\<close> is among the launch arguments; the flag is kept in \<^verbatim>\<open>VIRTUAL\<close> and a
  later \<^verbatim>\<open>delete_device\<close> passes the same value to \<^verbatim>\<open>deactivate_pc\<close>; and when
  \<^verbatim>\<open>init_pc\<close> returns false the device ends in state \<^verbatim>\<open>FAULT\<close> with the message logged.
\<close>

theorem init_device_virtual_flag:
  "(pc_util (fst (init_device e s)) = [Init_pc (''--virtual'' \<in> set (argv e))] \<or>
    pc_util (fst (init_device e s)) =
      [Init_pc (''--virtual'' \<in> set (argv e)), Deactivate_pc (''--virtual'' \<in> set (argv e))]) \<and>
   (Init_pc True \<in> set (pc_util (fst (init_device e s))) \<longleftrightarrow> ''--virtual'' \<in> set (argv e)) \<and>
   VIRTUAL (fst (init_device e s)) = (''--virtual'' \<in> set (argv e)) \<and>
   pc_util (fst (delete_device e' (fst (init_device e s)))) =
     pc_util (fst (init_device e s)) @ [Deactivate_pc (''--virtual'' \<in> set (argv e))] \<and>
   (\<not> init_pc_ret e \<longrightarrow>
      dev_state (fst (init_device e s)) = FAULT \<and>
      (INFO, ''Unable to start slsReceiver or zmq socket. Check firewall process and already running instances.'')
        \<in> set (logs (fst (init_device e s))))"
proof (intro conjI impI)
  show "pc_util (fst (init_device e s)) = [Init_pc (''--virtual'' \<in> set (argv e))] \<or>
    pc_util (fst (init_device e s)) =
      [Init_pc (''--virtual'' \<in> set (argv e)), Deactivate_pc (''--virtual'' \<in> set (argv e))]"
    by (simp only: init_device_pc_util split: if_split) blast
  show "Init_pc True \<in> set (pc_util (fst (init_device e s))) \<longleftrightarrow> ''--virtual'' \<in> set (argv e)"
    by (simp add: init_device_pc_util)
  show "VIRTUAL (fst (init_device e s)) = (''--virtual'' \<in> set (argv e))"
    by (rule init_device_VIRTUAL)
  show "pc_util (fst (delete_device e' (fst (init_device e s)))) =
     pc_util (fst (init_device e s)) @ [Deactivate_pc (''--virtual'' \<in> set (argv e))]"
    by (simp only: delete_device_pc_util init_device_VIRTUAL)
next
  assume "\<not> init_pc_ret e"
  then show "dev_state (fst (init_device e s)) = FAULT" 
    using init_device_fault by blast
next
  assume "\<not> init_pc_ret e"
  then show "(INFO, ''Unable to start slsReceiver or zmq socket. Check firewall process and already running instances.'')
        \<in> set (logs (fst (init_device e s)))"
    using init_device_fault by blast
qed

theorem init_device_virtual_flag_witness:
  "''--virtual'' \<in> set (argv env0) \<and> \<not> init_pc_ret env0 \<and>
   pc_util (fst (init_device env0 server0)) = [Init_pc True] \<and>
   pc_util (fst (delete_device env0 (fst (init_device env0 server0)))) =
     [Init_pc True, Deactivate_pc True] \<and>
   dev_state (fst (init_device env0 server0)) = FAULT"
  using init_device_virtual_flag [of env0 server0 env0]
  by (simp add: env0_def init_device_def delete_device_def Let_def set_state_def
      info_stream_def det_get_def)

text \<open>
  C8, as the code has it: \<^verbatim>\<open>delete_device\<close> calls \<^verbatim>\<open>deactivate_pc\<close> with the stored
  flag; when that call raises an instance of the class \<^verbatim>\<open>Exception\<close>, the exception is
  caught, the message asking to kill the process manually is logged, and nothing leaves
  \<^verbatim>\<open>delete_device\<close>; an exception outside that class is not caught: it leaves
  \<^verbatim>\<open>delete_device\<close> and nothing is logged.
\<close>

theorem delete_device_spec:
  "pc_util (fst (delete_device e s)) = pc_util s @ [Deactivate_pc (VIRTUAL s)] \<and>
   (deactivate_res e = None \<longrightarrow>
      delete_device e s =
        (info_stream ''SlsReceiver or zmq socket processes were killed.''
           (s\<lparr>pc_util := pc_util s @ [Deactivate_pc (VIRTUAL s)]\<rparr>), None)) \<and>
   (deactivate_res e = Some x \<and> is_Exception x \<longrightarrow>
      delete_device e s =
        (info_stream ''Unable to kill slsReceiver or zmq socket. Please kill it manually.''
           (s\<lparr>pc_util := pc_util s @ [Deactivate_pc (VIRTUAL s)]\<rparr>), None) \<and>
      snd (delete_device e s) = None) \<and>
   (deactivate_res e = Some x \<and> \<not> is_Exception x \<longrightarrow>
      snd (delete_device e s) = Some x \<and> logs (fst (delete_device e s)) = logs s)"
  by (cases "deactivate_res e") (simp_all add: delete_device_def Let_def info_stream_def)

theorem delete_device_spec_witness:
  "deactivate_res env0 = Some (OSError ''No such process'') \<and>
   is_Exception (OSError ''No such process'') \<and>
   snd (delete_device env0 server0) = None \<and>
   pc_util (fst (delete_device env0 server0)) = [Deactivate_pc False] \<and>
   logs (fst (delete_device env0 server0)) =
     [(INFO, ''Unable to kill slsReceiver or zmq socket. Please kill it manually.'')] \<and>
   logs (fst (delete_device (env0\<lparr>deactivate_res := None\<rparr>) server0)) =
     [(INFO, ''SlsReceiver or zmq socket processes were killed.'')] \<and>
   \<not> is_Exception SystemExit \<and>
   snd (delete_device (env0\<lparr>deactivate_res := Some SystemExit\<rparr>) server0) = Some SystemExit"
  using delete_device_spec [of env0 server0 "OSError ''No such process''"]
    delete_device_spec [of "env0\<lparr>deactivate_res := None\<rparr>" server0]
    delete_device_spec [of "env0\<lparr>deactivate_res := Some SystemExit\<rparr>" server0 SystemExit]
  by (simp add: env0_def server0_def info_stream_def)

text \<open>
  The clause \<^verbatim>\<open>except Exception\<close> does not catch what derives from \<^verbatim>\<open>BaseException\<close>
  only: a \<^verbatim>\<open>KeyboardInterrupt\<close> raised during the teardown leaves \<^verbatim>\<open>delete_device\<close>,
  and no message is logged.
\<close>

theorem delete_device_interrupt_propagates:
  "snd (delete_device (env0\<lparr>deactivate_res := Some KeyboardInterrupt\<rparr>) server0) =
     Some KeyboardInterrupt \<and>
   logs (fst (delete_device (env0\<lparr>deactivate_res := Some KeyboardInterrupt\<rparr>) server0)) = []"
  by (simp add: delete_device_def server0_def Let_def)

subsection \<open>ZMQ address\<close>

text \<open>
  C1: \<^verbatim>\<open>write_zmqip\<close> assigns \<^verbatim>\<open>IpAddr(value)\<close> to the detector's \<^verbatim>\<open>rx_zmqip\<close> if
  and only if the value matches the pattern of four groups of one to three digits
  separated by dots; for every value that does not match, the write is rejected: one error
  entry is logged, the detector and the list of accesses to it are as before. The
  strings that match are the dotted quads, alone or followed by one newline.
\<close>

theorem write_zmqip_spec:
  "(write_zmqip value s =
      det_set ''rx_zmqip'' (s\<lparr>device := (device s)\<lparr>rx_zmqip := IpAddr value\<rparr>\<rparr>)
    \<longleftrightarrow> re_match ip_pattern value) \<and>
   (\<not> re_match ip_pattern value \<longrightarrow>
      write_zmqip value s = error_stream ''not valid ip address'' s \<and>
      device (write_zmqip value s) = device s \<and>
      det_calls (write_zmqip value s) = det_calls s \<and>
      logs (write_zmqip value s) = logs s @ [(ERROR, ''not valid ip address'')]) \<and>
   (re_match ip_pattern value \<longleftrightarrow>
      dotted_quad value \<or> (\<exists>w. dotted_quad w \<and> value = w @ [CHR 0x0A]))"
proof (intro conjI)
  have "error_stream ''not valid ip address'' s \<noteq>
      det_set ''rx_zmqip'' (s\<lparr>device := (device s)\<lparr>rx_zmqip := IpAddr value\<rparr>\<rparr>)"
  proof
    assume "error_stream ''not valid ip address'' s =
      det_set ''rx_zmqip'' (s\<lparr>device := (device s)\<lparr>rx_zmqip := IpAddr value\<rparr>\<rparr>)"
    then have "logs (error_stream ''not valid ip address'' s) =
      logs (det_set ''rx_zmqip'' (s\<lparr>device := (device s)\<lparr>rx_zmqip := IpAddr value\<rparr>\<rparr>))"
      by simp
    then show False by (simp add: error_stream_def det_set_def)
  qed
  then show "write_zmqip value s =
      det_set ''rx_zmqip'' (s\<lparr>device := (device s)\<lparr>rx_zmqip := IpAddr value\<rparr>\<rparr>)
    \<longleftrightarrow> re_match ip_pattern value"
    by (simp add: write_zmqip_def)
  show "\<not> re_match ip_pattern value \<longrightarrow>
      write_zmqip value s = error_stream ''not valid ip address'' s \<and>
      device (write_zmqip value s) = device s \<and>
      det_calls (write_zmqip value s) = det_calls s \<and>
      logs (write_zmqip value s) = logs s @ [(ERROR, ''not valid ip address'')]"
    by (simp add: write_zmqip_def error_stream_def)
  show "re_match ip_pattern value \<longleftrightarrow>
      dotted_quad value \<or> (\<exists>w. dotted_quad w \<and> value = w @ [CHR 0x0A])"
    by (rule ip_pattern_iff)
qed

theorem write_zmqip_spec_witness:
  "rx_zmqip (device (write_zmqip ''192.168.1.10'' server0)) = IpAddr ''192.168.1.10'' \<and>
   det_calls (write_zmqip ''192.168.1.10'' server0) = [Set ''rx_zmqip''] \<and>
   logs (write_zmqip ''192.168.1.10'' server0) = [] \<and>
   \<not> re_match ip_pattern ''localhost'' \<and>
   device (write_zmqip ''localhost'' server0) = Moench0 \<and>
   det_calls (write_zmqip ''localhost'' server0) = [] \<and>
   logs (write_zmqip ''localhost'' server0) = [(ERROR, ''not valid ip address'')]"
  using write_zmqip_spec [of "''192.168.1.10''" server0]
    write_zmqip_spec [of "''localhost''" server0] re_match_example re_match_hostname
  by (simp add: server0_def det_set_def error_stream_def)

text \<open>
  C9: the check is on the syntax only. Every dotted quad, whatever the numbers its groups
  denote, is accepted and handed to \<^verbatim>\<open>IpAddr\<close> as it is, with nothing logged;
  \<^verbatim>\<open>999.999.999.999\<close> is one of them.
\<close>

theorem write_zmqip_no_range_check:
  "(dotted_quad value \<longrightarrow>
      write_zmqip value s =
        det_set ''rx_zmqip'' (s\<lparr>device := (device s)\<lparr>rx_zmqip := IpAddr value\<rparr>\<rparr>) \<and>
      rx_zmqip (device (write_zmqip value s)) = IpAddr value \<and>
      logs (write_zmqip value s) = logs s) \<and>
   dotted_quad ''999.999.999.999'' \<and>
   rx_zmqip (device (write_zmqip ''999.999.999.999'' s)) = IpAddr ''999.999.999.999''"
proof -
  have "re_match ip_pattern ''999.999.999.999''"
    using dotted_quad_999 ip_pattern_iff by blast
  then show ?thesis
    using dotted_quad_999 by (simp add: write_zmqip_def ip_pattern_iff det_set_def)
qed

theorem write_zmqip_no_range_check_witness:
  "dotted_quad ''300.400.500.600'' \<and>
   rx_zmqip (device (write_zmqip ''300.400.500.600'' server0)) = IpAddr ''300.400.500.600'' \<and>
   logs (write_zmqip ''300.400.500.600'' server0) = []"
proof -
  have dq: "dotted_quad ''300.400.500.600''"
    unfolding dotted_quad_def
    apply (rule exI[of _ "''300''"])
    apply (rule exI[of _ "''400''"])
    apply (rule exI[of _ "''500''"])
    apply (rule exI[of _ "''600''"])
    apply (simp add: digit_group_def)
    done
  then show ?thesis
    using write_zmqip_no_range_check [of "''300.400.500.600''" server0]
    by (simp add: server0_def det_set_def)
qed

end
